theory Spec2Isabelle
  imports Complex_Main "HOL-Library.Char_ord" "HOL-Library.List_Lexorder"
begin

section \<open>CORE customer segmentation: the RFM pipeline of the notebook\<close>

text \<open>
  The notebook \<^verbatim>\<open>CORE_Customer_Segmentation_Project.ipynb\<close> is a single-pass batch
  transform over pandas tables. A DataFrame is modelled as the list of its rows, a row as
  a record of its cells, a missing cell (NaN, NaT) as \<open>None\<close>. Python integers are
  \<open>int\<close>. The value of a numeric cell is a rational number (every double is one).
\<close>

subsection \<open>Machine arithmetic\<close>

text \<open>
  pandas computes the sum and the mean of a column and the interpolation of a percentile
  in machine arithmetic: the sum of an int64 column wraps, the sum and the mean of a
  float64 column and the interpolation are rounded. These three results are parameters
  of the model: \<open>col_sum ar xs\<close> and \<open>col_mean ar xs\<close> are the sum and the mean that
  pandas gives the values \<open>xs\<close>, and \<open>interp ar a b t\<close> is the double that numpy
  gives \<open>a + (b - a) * t\<close>. \<open>exact\<close> computes the three without rounding.
\<close>

record arith =
  col_sum :: "rat list \<Rightarrow> rat"
  col_mean :: "rat list \<Rightarrow> rat"
  interp :: "rat \<Rightarrow> rat \<Rightarrow> rat \<Rightarrow> rat"

definition exact_mean :: "rat list \<Rightarrow> rat" where
  "exact_mean xs = sum_list xs / of_nat (length xs)"

definition exact_interp :: "rat \<Rightarrow> rat \<Rightarrow> rat \<Rightarrow> rat" where
  "exact_interp a b t = a + (b - a) * t"

definition exact :: arith where
  "exact = \<lparr>col_sum = sum_list, col_mean = exact_mean, interp = exact_interp\<rparr>"

subsection \<open>Tables\<close>

text \<open>
  The transaction table has the nine columns of \<^verbatim>\<open>UrbanMart_Transactions.csv\<close>;
  \<open>idx\<close> is the row's index label, which every step below keeps. \<open>'d\<close> is the type of
  a cell of \<^verbatim>\<open>TransactionDate\<close>: \<open>string option\<close> as read, a timestamp or NaT after
  \<^verbatim>\<open>to_datetime\<close>, a timestamp after \<^verbatim>\<open>dropna\<close>.
\<close>

record 'd row =
  idx :: nat
  TransactionID :: "string option"
  CustomerID :: "string option"
  TransactionDate :: 'd
  TransactionValue :: "rat option"
  ProductCategory :: "string option"
  PaymentMethod :: "string option"
  CustomerGender :: "string option"
  CustomerAgeGroup :: "string option"
  Region :: "string option"

text \<open>A pandas Timestamp: nanoseconds since the epoch, a signed 64-bit count.\<close>

type_synonym timestamp = int

type_synonym raw_row = "string option row"
type_synonym clean_row = "timestamp row"

datatype error = KeyError | OutOfBoundsDatetime

definition bind_err :: "error + 'a \<Rightarrow> ('a \<Rightarrow> error + 'b) \<Rightarrow> error + 'b" where
  "bind_err m f = (case m of Inl e \<Rightarrow> Inl e | Inr x \<Rightarrow> f x)"

subsection \<open>Loader/Cleaner\<close>

text \<open>
  \<^verbatim>\<open>pd.read_csv\<close> types the columns: a column of strings is of dtype object when
  some row of the file has a value in it, and float64, all NaN, when none has; the
  columns of a file with no row are all of dtype object. No step below changes a dtype
  before \<^verbatim>\<open>to_datetime\<close>. \<open>raw\<close> is the table as read.
\<close>

definition is_object :: "raw_row list \<Rightarrow> (raw_row \<Rightarrow> string option) \<Rightarrow> bool" where
  "is_object raw col = (raw = [] \<or> (\<exists>r \<in> set raw. col r \<noteq> None))"

text \<open>\<^verbatim>\<open>df.dropna(thresh=df.shape[1] - 2)\<close>: a row stays when at least 9 - 2 of its cells are not missing.\<close>

definition count_notna :: "raw_row \<Rightarrow> nat" where
  "count_notna r =
     length (filter (\<lambda>c. c \<noteq> None)
       [TransactionID r, CustomerID r, TransactionDate r, ProductCategory r,
        PaymentMethod r, CustomerGender r, CustomerAgeGroup r, Region r])
     + (if TransactionValue r = None then 0 else 1)"

definition dropna_thresh :: "raw_row list \<Rightarrow> raw_row list" where
  "dropna_thresh df = filter (\<lambda>r. 9 - 2 \<le> count_notna r) df"

text \<open>
  \<^verbatim>\<open>Series.sum()\<close> and \<^verbatim>\<open>Series.mean()\<close> skip missing values; the sum of no values
  is 0 and the mean of no values is NaN.
\<close>

definition notna :: "'a option list \<Rightarrow> 'a list" where
  "notna col = concat (map (\<lambda>c. case c of None \<Rightarrow> [] | Some v \<Rightarrow> [v]) col)"

definition sum_skipna :: "arith \<Rightarrow> rat option list \<Rightarrow> rat" where
  "sum_skipna ar col = (if notna col = [] then 0 else col_sum ar (notna col))"

definition mean :: "arith \<Rightarrow> rat option list \<Rightarrow> rat option" where
  "mean ar col = (if notna col = [] then None else Some (col_mean ar (notna col)))"

text \<open>
  \<^verbatim>\<open>df[numeric_cols] = df[numeric_cols].fillna(df[numeric_cols].mean())\<close>: the numeric
  columns are \<^verbatim>\<open>TransactionValue\<close> and the float64 columns that are all NaN, whose
  mean is NaN and which the step leaves as they are.
\<close>

definition fillna_mean :: "arith \<Rightarrow> raw_row list \<Rightarrow> raw_row list" where
  "fillna_mean ar df =
     (let m = mean ar (map TransactionValue df)
      in map (\<lambda>r. r\<lparr>TransactionValue :=
                      (case TransactionValue r of None \<Rightarrow> m | Some v \<Rightarrow> Some v)\<rparr>) df)"

text \<open>
  \<^verbatim>\<open>Series.mode()\<close>: the most frequent of the values that are not missing, in ascending
  order; \<^verbatim>\<open>mode()[0]\<close> is the least of them and raises KeyError when there is none.
\<close>

definition mode :: "string option list \<Rightarrow> string list" where
  "mode col =
     (let vals = notna col;
          ks = sort (remdups vals)
      in filter (\<lambda>k. \<forall>j \<in> set ks. count_list vals j \<le> count_list vals k) ks)"

definition fillna :: "string \<Rightarrow> string option \<Rightarrow> string option" where
  "fillna m c = (case c of None \<Rightarrow> Some m | Some v \<Rightarrow> Some v)"

text \<open>
  \<^verbatim>\<open>df[col] = df[col].fillna(df[col].mode()[0])\<close> for one column of
  \<^verbatim>\<open>categorical_cols = df.select_dtypes(include=['object']).columns\<close>: the change of
  the column's cells. A column that is not of dtype object is not in the loop and keeps
  its cells.
\<close>

definition fill_col ::
  "raw_row list \<Rightarrow> raw_row list \<Rightarrow> (raw_row \<Rightarrow> string option)
     \<Rightarrow> error + (string option \<Rightarrow> string option)" where
  "fill_col raw df col =
     (if is_object raw col
      then (case mode (map col df) of [] \<Rightarrow> Inl KeyError | m # _ \<Rightarrow> Inr (fillna m))
      else Inr id)"

text \<open>
  \<^verbatim>\<open>for col in categorical_cols: ...\<close>: the columns in the table's order,
  \<^verbatim>\<open>TransactionDate\<close> (strings here) among them.
\<close>

definition fillna_mode :: "raw_row list \<Rightarrow> raw_row list \<Rightarrow> error + raw_row list" where
  "fillna_mode raw df =
     bind_err (fill_col raw df TransactionID) (\<lambda>f_tid.
     bind_err (fill_col raw df CustomerID) (\<lambda>f_cid.
     bind_err (fill_col raw df TransactionDate) (\<lambda>f_date.
     bind_err (fill_col raw df ProductCategory) (\<lambda>f_cat.
     bind_err (fill_col raw df PaymentMethod) (\<lambda>f_pay.
     bind_err (fill_col raw df CustomerGender) (\<lambda>f_gen.
     bind_err (fill_col raw df CustomerAgeGroup) (\<lambda>f_age.
     bind_err (fill_col raw df Region) (\<lambda>f_reg.
       Inr (map (\<lambda>r.
         \<lparr>idx = idx r,
          TransactionID = f_tid (TransactionID r),
          CustomerID = f_cid (CustomerID r),
          TransactionDate = f_date (TransactionDate r),
          TransactionValue = TransactionValue r,
          ProductCategory = f_cat (ProductCategory r),
          PaymentMethod = f_pay (PaymentMethod r),
          CustomerGender = f_gen (CustomerGender r),
          CustomerAgeGroup = f_age (CustomerAgeGroup r),
          Region = f_reg (Region r)\<rparr>) df)))))))))"

text \<open>
  \<^verbatim>\<open>pd.to_datetime(df['TransactionDate'], errors='coerce')\<close> is pandas' parser and is a
  parameter of the model: \<open>parse col s\<close> is the timestamp it gives the string \<open>s\<close> of
  a column with the strings \<open>col\<close> (the parser may infer a format from the column), or
  \<open>None\<close> (NaT) where the string does not parse. A missing cell becomes NaT.
\<close>

definition set_date :: "'e \<Rightarrow> 'd row \<Rightarrow> 'e row" where
  "set_date d r =
     \<lparr>idx = idx r, TransactionID = TransactionID r, CustomerID = CustomerID r,
      TransactionDate = d, TransactionValue = TransactionValue r,
      ProductCategory = ProductCategory r, PaymentMethod = PaymentMethod r,
      CustomerGender = CustomerGender r, CustomerAgeGroup = CustomerAgeGroup r,
      Region = Region r\<rparr>"

definition to_datetime ::
  "(string list \<Rightarrow> string \<Rightarrow> timestamp option) \<Rightarrow> raw_row list
     \<Rightarrow> timestamp option row list" where
  "to_datetime parse df =
     (let col = notna (map TransactionDate df)
      in map (\<lambda>r. set_date (case TransactionDate r of None \<Rightarrow> None
                                | Some s \<Rightarrow> parse col s) r) df)"

text \<open>\<^verbatim>\<open>df.dropna(subset=['TransactionDate'])\<close>\<close>

definition dropna_date :: "timestamp option row list \<Rightarrow> clean_row list" where
  "dropna_date df =
     concat (map (\<lambda>r. case TransactionDate r of None \<Rightarrow> [] | Some t \<Rightarrow> [set_date t r]) df)"

text \<open>
  \<^verbatim>\<open>snapshot_date = df['TransactionDate'].max() + timedelta(days=1)\<close>: NaT on an empty
  table; the sum raises when it leaves the range of a Timestamp.
\<close>

definition day :: int where
  "day = 86400000000000"

definition snapshot_date_of :: "clean_row list \<Rightarrow> error + timestamp option" where
  "snapshot_date_of df =
     (if df = [] then Inr None
      else
        let m = Max (set (map TransactionDate df))
        in if m + day > 2 ^ 63 - 1 then Inl OutOfBoundsDatetime else Inr (Some (m + day)))"

text \<open>The cells of Step 1: the cleaned table and the snapshot date.\<close>

definition load_clean ::
  "arith \<Rightarrow> (string list \<Rightarrow> string \<Rightarrow> timestamp option) \<Rightarrow> raw_row list
     \<Rightarrow> error + (clean_row list \<times> timestamp option)" where
  "load_clean ar parse raw =
     bind_err (fillna_mode raw (fillna_mean ar (dropna_thresh raw))) (\<lambda>filled.
       let df = dropna_date (to_datetime parse filled)
       in bind_err (snapshot_date_of df) (\<lambda>snapshot_date. Inr (df, snapshot_date)))"

subsection \<open>Aggregator\<close>

record rfm_row =
  rfm_CustomerID :: string
  Recency :: int
  TransactionCount :: int
  Monetary :: rat
  AvgTransactionValue :: "rat option"

text \<open>
  \<^verbatim>\<open>df.groupby('CustomerID').agg({...}).reset_index()\<close>: one row per customer id of
  the table, in ascending order of the id; \<^verbatim>\<open>groupby\<close> leaves out the rows whose
  \<^verbatim>\<open>CustomerID\<close> is missing. \<open>snapshot_date\<close> is the notebook's global. Recency is
  the \<^verbatim>\<open>days\<close> of a Timedelta, its floor in whole days; \<^verbatim>\<open>'count'\<close> counts the
  cells of \<^verbatim>\<open>TransactionID\<close> that are not missing.
\<close>

definition rfm_agg :: "arith \<Rightarrow> timestamp \<Rightarrow> clean_row list \<Rightarrow> rfm_row list" where
  "rfm_agg ar snapshot_date df =
     map (\<lambda>k.
       let x = filter (\<lambda>r. CustomerID r = Some k) df
       in \<lparr>rfm_CustomerID = k,
           Recency = (snapshot_date - Max (set (map TransactionDate x))) div day,
           TransactionCount = int (length (notna (map TransactionID x))),
           Monetary = sum_skipna ar (map TransactionValue x),
           AvgTransactionValue = mean ar (map TransactionValue x)\<rparr>)
       (sort (remdups (notna (map CustomerID df))))"

subsection \<open>Scorer: \<^verbatim>\<open>score_rfm\<close>\<close>

text \<open>
  numpy interpolates between two neighbours \<open>a \<le> b\<close> of the sorted values at the
  fraction \<open>t\<close> as \<open>a + (b - a) * t\<close>, and as \<open>b - (b - a) * (1 - t)\<close> from
  \<open>t = 0.5\<close> on, in double precision. Whatever the rounding, the result is \<open>a\<close> at
  \<open>t = 0\<close> and lies between \<open>a\<close> and \<open>b\<close>; the model fixes no more of it.
\<close>

definition lerp :: "arith \<Rightarrow> rat \<Rightarrow> rat \<Rightarrow> rat \<Rightarrow> rat" where
  "lerp ar a b t = (if t = 0 then a else max a (min b (interp ar a b t)))"

text \<open>
  \<^verbatim>\<open>Series.quantile(q)\<close> with the default linear interpolation: on the sorted values,
  the position is \<open>q * (n - 1)\<close>, and the result interpolates between the values at the
  floor of the position and at the next index. On an empty series the result is NaN.
  For the four percentiles of the notebook the double \<open>q * (n - 1)\<close> has the floor of
  the exact product and is the exact product when that is a whole number, for every
  table of fewer than \<open>2 ^ 50\<close> rows, so the model computes the position exactly.
  The notebook asks for the percentiles 0.25, 0.5, 0.75 and 0.9; pandas rejects a \<open>q\<close>
  outside of 0 to 1, where the model reads the sorted values out of range.
\<close>

definition quantile :: "arith \<Rightarrow> rat list \<Rightarrow> rat \<Rightarrow> rat option" where
  "quantile ar col q =
     (if col = [] then None
      else
        let s = sort col;
            n = length s;
            pos = q * of_nat (n - 1);
            lo = nat \<lfloor>pos\<rfloor>;
            hi = min (lo + 1) (n - 1);
            frac = pos - of_nat lo
        in Some (lerp ar (s ! lo) (s ! hi) frac))"

text \<open>\<^verbatim>\<open>series.quantile([0.25, 0.50, 0.75])\<close>: the three values \<^verbatim>\<open>score_rfm\<close> looks up.\<close>

record quartiles =
  q25 :: "rat option"
  q50 :: "rat option"
  q75 :: "rat option"

definition quantile3 :: "arith \<Rightarrow> rat list \<Rightarrow> quartiles" where
  "quantile3 ar col =
     \<lparr>q25 = quantile ar col (1 / 4), q50 = quantile ar col (1 / 2),
      q75 = quantile ar col (3 / 4)\<rparr>"

text \<open>\<^verbatim>\<open>value <= quantiles[...]\<close>: a comparison with NaN is false.\<close>

definition le_float :: "rat \<Rightarrow> rat option \<Rightarrow> bool" where
  "le_float v q = (case q of None \<Rightarrow> False | Some x \<Rightarrow> v \<le> x)"

definition score_rfm :: "rat \<Rightarrow> quartiles \<Rightarrow> bool \<Rightarrow> int" where
  "score_rfm val quantiles reverse =
     (if le_float val (q25 quantiles) then (if reverse then 4 else 1)
      else if le_float val (q50 quantiles) then (if reverse then 3 else 2)
      else if le_float val (q75 quantiles) then (if reverse then 2 else 3)
      else (if reverse then 1 else 4))"

subsection \<open>Classifier: \<^verbatim>\<open>classify_core\<close>\<close>

definition classify_core :: "int \<Rightarrow> int \<Rightarrow> int \<Rightarrow> string" where
  "classify_core r f m =
     (if r \<ge> 3 \<and> f \<ge> 3 \<and> m \<ge> 3 then ''Retain''
      else if r \<ge> 3 \<and> (f = 2 \<or> m = 2) then ''Optimize''
      else if r = 2 \<and> f \<le> 2 \<and> m \<le> 2 then ''Convert''
      else ''Exit'')"

subsection \<open>Scorer, Classifier and Flagger on the customer table\<close>

record customer = rfm_row +
  R_Score :: int
  F_Score :: int
  M_Score :: int
  CORE_Segment :: string
  Churn_Risk :: string
  Top_Spender :: string
  IsLoyalCustomer :: string

text \<open>\<^verbatim>\<open>x >= top_spend_threshold\<close>: a comparison with NaN is false.\<close>

definition ge_float :: "rat \<Rightarrow> rat option \<Rightarrow> bool" where
  "ge_float v q = (case q of None \<Rightarrow> False | Some x \<Rightarrow> v \<ge> x)"

text \<open>
  The columns the notebook adds to \<^verbatim>\<open>rfm\<close> in Steps X, 5, 6 and 8. The quartiles and
  the top-spend threshold are computed once, over the whole table, before the rows are
  scored.
\<close>

definition score_and_flag :: "arith \<Rightarrow> rfm_row list \<Rightarrow> customer list" where
  "score_and_flag ar rfm =
     (let r_quartiles = quantile3 ar (map (\<lambda>c. of_int (Recency c)) rfm);
          f_quartiles = quantile3 ar (map (\<lambda>c. of_int (TransactionCount c)) rfm);
          m_quartiles = quantile3 ar (map Monetary rfm);
          top_spend_threshold = quantile ar (map Monetary rfm) (9 / 10)
      in map (\<lambda>c.
           let r = score_rfm (of_int (Recency c)) r_quartiles True;
               f = score_rfm (of_int (TransactionCount c)) f_quartiles False;
               m = score_rfm (Monetary c) m_quartiles False
           in \<lparr>rfm_CustomerID = rfm_CustomerID c,
               Recency = Recency c,
               TransactionCount = TransactionCount c,
               Monetary = Monetary c,
               AvgTransactionValue = AvgTransactionValue c,
               R_Score = r,
               F_Score = f,
               M_Score = m,
               CORE_Segment = classify_core r f m,
               Churn_Risk = (if Recency c > 90 then ''Yes'' else ''No''),
               Top_Spender =
                 (if ge_float (Monetary c) top_spend_threshold then ''Yes'' else ''No''),
               IsLoyalCustomer = (if TransactionCount c \<ge> 5 then ''Yes'' else ''No'')\<rparr>)
         rfm)"

subsection \<open>Merger\<close>

text \<open>
  \<^verbatim>\<open>pd.merge(df, rfm, on='CustomerID', how='left')\<close>: in the order of the left table,
  each transaction row with every customer row of the same id, and with missing customer
  cells when there is none, as for a row whose \<^verbatim>\<open>CustomerID\<close> is missing.
\<close>

definition merge_left :: "clean_row list \<Rightarrow> customer list \<Rightarrow> (clean_row \<times> customer option) list" where
  "merge_left df rfm =
     concat (map (\<lambda>t.
       case filter (\<lambda>c. Some (rfm_CustomerID c) = CustomerID t) rfm of
         [] \<Rightarrow> [(t, None)]
       | ms \<Rightarrow> map (\<lambda>c. (t, Some c)) ms) df)"

text \<open>Steps 2 to 9 on a cleaned table and its snapshot date.\<close>

definition df_final ::
  "arith \<Rightarrow> timestamp \<Rightarrow> clean_row list \<Rightarrow> (clean_row \<times> customer option) list" where
  "df_final ar snapshot_date df =
     merge_left df (score_and_flag ar (rfm_agg ar snapshot_date df))"

subsection \<open>Example tables\<close>

text \<open>A customer table of four customers, and one of three customers who spent the same.\<close>

definition rfm_ex :: "rfm_row list" where
  "rfm_ex =
     [\<lparr>rfm_CustomerID = ''CUST00001'', Recency = 5, TransactionCount = 10,
       Monetary = 400, AvgTransactionValue = Some 40\<rparr>,
      \<lparr>rfm_CustomerID = ''CUST00002'', Recency = 20, TransactionCount = 6,
       Monetary = 300, AvgTransactionValue = Some 50\<rparr>,
      \<lparr>rfm_CustomerID = ''CUST00003'', Recency = 95, TransactionCount = 2,
       Monetary = 100, AvgTransactionValue = Some 50\<rparr>,
      \<lparr>rfm_CustomerID = ''CUST00004'', Recency = 40, TransactionCount = 4,
       Monetary = 200, AvgTransactionValue = Some 50\<rparr>]"

definition rfm_same :: "rfm_row list" where
  "rfm_same =
     [\<lparr>rfm_CustomerID = ''CUST00001'', Recency = 5, TransactionCount = 10,
       Monetary = 300, AvgTransactionValue = Some 30\<rparr>,
      \<lparr>rfm_CustomerID = ''CUST00002'', Recency = 20, TransactionCount = 6,
       Monetary = 300, AvgTransactionValue = Some 50\<rparr>,
      \<lparr>rfm_CustomerID = ''CUST00003'', Recency = 95, TransactionCount = 2,
       Monetary = 300, AvgTransactionValue = Some 150\<rparr>]"


text \<open>
  A raw table of six rows. Row 1 has no date, row 2 a date that does not parse, row 3 no
  value, and row 4 three missing cells. \<open>to_datetime_ex\<close> is the parser on the date
  strings of this table: the two dates parse to their midnight, the third string does
  not parse.
\<close>

definition to_datetime_ex :: "string list \<Rightarrow> string \<Rightarrow> timestamp option" where
  "to_datetime_ex col s =
     (if s = ''2024-01-05'' then Some 1704412800000000000
      else if s = ''2024-01-08'' then Some 1704672000000000000
      else None)"

definition raw_ex :: "raw_row list" where
  "raw_ex =
     [\<lparr>idx = 0, TransactionID = Some ''TRANS000000'', CustomerID = Some ''CUST00002'',
       TransactionDate = Some ''2024-01-05'', TransactionValue = Some 100,
       ProductCategory = Some ''Sport'', PaymentMethod = Some ''E-Wallet'',
       CustomerGender = Some ''Female'', CustomerAgeGroup = Some ''26-35'',
       Region = Some ''Jakarta''\<rparr>,
      \<lparr>idx = 1, TransactionID = Some ''TRANS000001'', CustomerID = Some ''CUST00001'',
       TransactionDate = None, TransactionValue = Some 250,
       ProductCategory = Some ''Home'', PaymentMethod = Some ''E-Wallet'',
       CustomerGender = Some ''Male'', CustomerAgeGroup = Some ''18-25'',
       Region = Some ''Medan''\<rparr>,
      \<lparr>idx = 2, TransactionID = Some ''TRANS000002'', CustomerID = Some ''CUST00002'',
       TransactionDate = Some ''not a date'', TransactionValue = Some 175,
       ProductCategory = Some ''Beauty'', PaymentMethod = Some ''Credit Card'',
       CustomerGender = Some ''Female'', CustomerAgeGroup = Some ''26-35'',
       Region = Some ''Jakarta''\<rparr>,
      \<lparr>idx = 3, TransactionID = Some ''TRANS000003'', CustomerID = Some ''CUST00001'',
       TransactionDate = Some ''2024-01-08'', TransactionValue = None,
       ProductCategory = Some ''Home'', PaymentMethod = Some ''Credit Card'',
       CustomerGender = Some ''Male'', CustomerAgeGroup = Some ''18-25'',
       Region = Some ''Medan''\<rparr>,
      \<lparr>idx = 4, TransactionID = Some ''TRANS000004'', CustomerID = None,
       TransactionDate = None, TransactionValue = None,
       ProductCategory = Some ''Sport'', PaymentMethod = Some ''E-Wallet'',
       CustomerGender = Some ''Male'', CustomerAgeGroup = Some ''36-50'',
       Region = Some ''Bandung''\<rparr>,
      \<lparr>idx = 5, TransactionID = Some ''TRANS000005'', CustomerID = Some ''CUST00002'',
       TransactionDate = Some ''2024-01-05'', TransactionValue = Some 175,
       ProductCategory = Some ''Sport'', PaymentMethod = Some ''E-Wallet'',
       CustomerGender = Some ''Female'', CustomerAgeGroup = Some ''26-35'',
       Region = Some ''Jakarta''\<rparr>]"

text \<open>
  The cleaned table of the raw table: rows 0, 1, 3 and 5, two customers, dates
  2024-01-05 and 2024-01-08; its snapshot date is 2024-01-09.
\<close>

definition df_ex :: "clean_row list" where
  "df_ex =
     [\<lparr>idx = 0, TransactionID = Some ''TRANS000000'', CustomerID = Some ''CUST00002'',
       TransactionDate = 1704412800000000000, TransactionValue = Some 100,
       ProductCategory = Some ''Sport'', PaymentMethod = Some ''E-Wallet'',
       CustomerGender = Some ''Female'', CustomerAgeGroup = Some ''26-35'', Region = Some ''Jakarta''\<rparr>,
      \<lparr>idx = 1, TransactionID = Some ''TRANS000001'', CustomerID = Some ''CUST00001'',
       TransactionDate = 1704412800000000000, TransactionValue = Some 250,
       ProductCategory = Some ''Home'', PaymentMethod = Some ''E-Wallet'',
       CustomerGender = Some ''Male'', CustomerAgeGroup = Some ''18-25'', Region = Some ''Medan''\<rparr>,
      \<lparr>idx = 3, TransactionID = Some ''TRANS000003'', CustomerID = Some ''CUST00001'',
       TransactionDate = 1704672000000000000, TransactionValue = Some 175,
       ProductCategory = Some ''Home'', PaymentMethod = Some ''Credit Card'',
       CustomerGender = Some ''Male'', CustomerAgeGroup = Some ''18-25'', Region = Some ''Medan''\<rparr>,
      \<lparr>idx = 5, TransactionID = Some ''TRANS000005'', CustomerID = Some ''CUST00002'',
       TransactionDate = 1704412800000000000, TransactionValue = Some 175,
       ProductCategory = Some ''Sport'', PaymentMethod = Some ''E-Wallet'',
       CustomerGender = Some ''Female'', CustomerAgeGroup = Some ''26-35'', Region = Some ''Jakarta''\<rparr>]"

text \<open>
  The raw table with no \<^verbatim>\<open>TransactionID\<close> in any row, and with no \<^verbatim>\<open>CustomerID\<close>
  in any row, and their cleaned tables.
\<close>

definition raw_noid :: "raw_row list" where
  "raw_noid = map (\<lambda>r. r\<lparr>TransactionID := None\<rparr>) raw_ex"

definition df_noid :: "clean_row list" where
  "df_noid = map (\<lambda>r. r\<lparr>TransactionID := None\<rparr>) df_ex"

definition raw_nocust :: "raw_row list" where
  "raw_nocust = map (\<lambda>r. r\<lparr>CustomerID := None\<rparr>) raw_ex"

definition df_nocust :: "clean_row list" where
  "df_nocust = map (\<lambda>r. r\<lparr>CustomerID := None\<rparr>) df_ex"

text \<open>Seven customers with distinct Monetary.\<close>

definition rfm_seven :: "rfm_row list" where
  "rfm_seven =
     map (\<lambda>(k, m). \<lparr>rfm_CustomerID = k, Recency = 5, TransactionCount = 3,
                    Monetary = m, AvgTransactionValue = Some (m / 3)\<rparr>)
       [(''CUST00000'', 1), (''CUST00001'', 2), (''CUST00002'', 3), (''CUST00003'', 4),
        (''CUST00004'', 5), (''CUST00005'', 10000000000000000),
        (''CUST00006'', 10000000000000002)]"

text \<open>
  An arithmetic that rounds the interpolation to an even integer above \<open>2 ^ 53\<close>, as
  doubles do, and is exact otherwise.
\<close>

definition round_even :: "rat \<Rightarrow> rat" where
  "round_even x = (if x < 2 ^ 53 then x else 2 * of_int (round (x / 2)))"

definition rounding :: arith where
  "rounding = \<lparr>col_sum = sum_list, col_mean = exact_mean,
                interp = (\<lambda>a b t. round_even (a + (b - a) * t))\<rparr>"

section \<open>Properties\<close>

subsection \<open>Loader/Cleaner\<close>

lemma fillna_Some: "\<exists>y. fillna m c = Some y"
  by (simp add: fillna_def split: option.splits)

lemma fill_col_object:
  assumes "fill_col raw df col = Inr f" and "\<exists>r \<in> set raw. col r \<noteq> None"
  shows "f c \<noteq> None"
  using assms
  by (auto simp: fill_col_def is_object_def fillna_Some split: list.splits if_splits)

lemma fill_col_float:
  assumes "raw \<noteq> []" and "\<forall>r \<in> set raw. col r = None"
  shows "fill_col raw df col = Inr id"
  using assms by (auto simp: fill_col_def is_object_def)

lemma fillna_mode_Inr:
  assumes "fillna_mode raw df = Inr filled"
  shows "\<exists>f_tid f_cid f_date.
           fill_col raw df TransactionID = Inr f_tid
         \<and> fill_col raw df CustomerID = Inr f_cid
         \<and> fill_col raw df TransactionDate = Inr f_date
         \<and> map idx filled = map idx df
         \<and> map TransactionID filled = map (\<lambda>r. f_tid (TransactionID r)) df
         \<and> map CustomerID filled = map (\<lambda>r. f_cid (CustomerID r)) df
         \<and> map TransactionDate filled = map (\<lambda>r. f_date (TransactionDate r)) df"
  using assms
  by (auto simp: fillna_mode_def bind_err_def o_def split: sum.splits)

lemma fillna_mean_cols:
  "map idx (fillna_mean ar df) = map idx df"
  "map TransactionID (fillna_mean ar df) = map TransactionID df"
  "map CustomerID (fillna_mean ar df) = map CustomerID df"
  "map TransactionDate (fillna_mean ar df) = map TransactionDate df"
  by (simp_all add: fillna_mean_def Let_def o_def)

lemma dropna_date_sub:
  "set (map TransactionID (dropna_date (to_datetime parse filled))) \<subseteq> set (map TransactionID filled)"
  "set (map CustomerID (dropna_date (to_datetime parse filled))) \<subseteq> set (map CustomerID filled)"
  by (auto simp: dropna_date_def to_datetime_def Let_def set_date_def split: option.splits)

lemma load_clean_filled:
  assumes "load_clean ar parse raw = Inr (df, snap)"
  shows "\<exists>filled. fillna_mode raw (fillna_mean ar (dropna_thresh raw)) = Inr filled
           \<and> df = dropna_date (to_datetime parse filled)"
  using assms by (auto simp: load_clean_def bind_err_def Let_def split: sum.splits)

text \<open>
  A column of the file that has a value in some row has one in every row of the cleaned
  table.
\<close>

lemma load_clean_ids:
  assumes "load_clean ar parse raw = Inr (df, snap)"
  shows "(\<exists>r \<in> set raw. TransactionID r \<noteq> None) \<Longrightarrow> \<forall>r \<in> set df. TransactionID r \<noteq> None"
    and "(\<exists>r \<in> set raw. CustomerID r \<noteq> None) \<Longrightarrow> \<forall>r \<in> set df. CustomerID r \<noteq> None"
proof -
  from load_clean_filled[OF assms] obtain filled where
    filled: "fillna_mode raw (fillna_mean ar (dropna_thresh raw)) = Inr filled"
    and df: "df = dropna_date (to_datetime parse filled)" by blast
  from fillna_mode_Inr[OF filled] obtain f_tid f_cid where
    f: "fill_col raw (fillna_mean ar (dropna_thresh raw)) TransactionID = Inr f_tid"
       "fill_col raw (fillna_mean ar (dropna_thresh raw)) CustomerID = Inr f_cid"
    and cols: "map TransactionID filled
                 = map (\<lambda>r. f_tid (TransactionID r)) (fillna_mean ar (dropna_thresh raw))"
              "map CustomerID filled
                 = map (\<lambda>r. f_cid (CustomerID r)) (fillna_mean ar (dropna_thresh raw))"
    by blast
  show "\<forall>r \<in> set df. TransactionID r \<noteq> None" if "\<exists>r \<in> set raw. TransactionID r \<noteq> None"
  proof
    fix r assume "r \<in> set df"
    then have "TransactionID r \<in> set (map TransactionID filled)"
      using dropna_date_sub(1)[of parse filled] by (auto simp: df)
    then show "TransactionID r \<noteq> None"
      unfolding cols using fill_col_object[OF f(1) that] by auto
  qed
  show "\<forall>r \<in> set df. CustomerID r \<noteq> None" if "\<exists>r \<in> set raw. CustomerID r \<noteq> None"
  proof
    fix r assume "r \<in> set df"
    then have "CustomerID r \<in> set (map CustomerID filled)"
      using dropna_date_sub(2)[of parse filled] by (auto simp: df)
    then show "CustomerID r \<noteq> None"
      unfolding cols using fill_col_object[OF f(2) that] by auto
  qed
qed

text \<open>A file with rows and no date in any of them: the Cleaner returns the empty table.\<close>

lemma load_clean_no_date:
  assumes "load_clean ar parse raw = Inr (df, snap)"
    and "raw \<noteq> []" and "\<forall>r \<in> set raw. TransactionDate r = None"
  shows "df = [] \<and> snap = None"
proof -
  let ?base = "fillna_mean ar (dropna_thresh raw)"
  from load_clean_filled[OF assms(1)] obtain filled where
    filled: "fillna_mode raw ?base = Inr filled"
    and df: "df = dropna_date (to_datetime parse filled)" by blast
  from fillna_mode_Inr[OF filled] obtain f_date where
    f: "fill_col raw ?base TransactionDate = Inr f_date"
    and col: "map TransactionDate filled = map (\<lambda>r. f_date (TransactionDate r)) ?base"
    by blast
  have "f_date = id" using f fill_col_float[OF assms(2,3)] by simp
  moreover have "\<forall>r \<in> set ?base. TransactionDate r = None"
    using assms(3) by (auto simp: fillna_mean_def Let_def dropna_thresh_def)
  ultimately have "map TransactionDate filled = map (\<lambda>r. None) ?base"
    unfolding col by simp
  then have "\<forall>r \<in> set filled. TransactionDate r = None"
    by (metis (no_types, lifting) in_set_conv_nth length_map nth_map)
  then have "df = []"
    by (auto simp: df dropna_date_def to_datetime_def Let_def set_date_def)
  then show ?thesis
    using assms(1) by (auto simp: load_clean_def bind_err_def Let_def snapshot_date_of_def split: sum.splits)
qed

lemma fill_col_Some:
  assumes "fill_col raw df col = Inr f"
  shows "f (Some s) = Some s"
  using assms by (auto simp: fill_col_def fillna_def split: list.splits if_splits)

lemma fill_col_fillna_mean:
  "fill_col raw (fillna_mean ar df) TransactionDate = fill_col raw df TransactionDate"
  by (simp add: fill_col_def fillna_mean_cols)

lemma dropna_date_to_datetime:
  "map idx (dropna_date (to_datetime parse filled))
     = map fst (filter (\<lambda>p. \<exists>s t. snd p = Some s
                              \<and> parse (notna (map TransactionDate filled)) s = Some t)
         (map (\<lambda>r. (idx r, TransactionDate r)) filled))"
proof -
  have "map idx (concat (map (\<lambda>r. case TransactionDate r of None \<Rightarrow> []
                                  | Some t \<Rightarrow> [set_date t r])
           (map (\<lambda>r. set_date (case TransactionDate r of None \<Rightarrow> None
                                 | Some s \<Rightarrow> parse col s) r) xs)))
     = map fst (filter (\<lambda>p. \<exists>s t. snd p = Some s \<and> parse col s = Some t)
         (map (\<lambda>r. (idx r, TransactionDate r)) xs))" for col and xs :: "raw_row list"
    by (induction xs) (auto simp: set_date_def split: option.splits)
  then show ?thesis by (simp add: dropna_date_def to_datetime_def Let_def)
qed

lemma set_fst_filter_pairs:
  "set (map fst (filter (\<lambda>p. P (snd p)) (map (\<lambda>r. (f r, g r)) xs)))
     = {f b | b. b \<in> set xs \<and> P (g b)}"
  by (induction xs) auto

lemma mem_image_Collect: "(a \<in> {f b | b. b \<in> A \<and> P b}) = (\<exists>b \<in> A. f b = a \<and> P b)"
  by auto

lemma pairs_of_columns:
  assumes "map f xs = map f' ys" and "map g xs = map g' ys"
  shows "map (\<lambda>r. (f r, g r)) xs = map (\<lambda>r. (f' r, g' r)) ys"
  using assms by (induction xs arbitrary: ys) (auto simp: Cons_eq_map_conv)

text \<open>
  When the Cleaner returns, a row that survives the missing-fields threshold is in the
  cleaned table exactly when its date, as the loop over the object columns left it,
  parses. Rows are identified by their index labels, which are distinct.
\<close>

lemma row_kept_iff_date_parses:
  assumes "load_clean ar parse raw = Inr (df, snap)"
    and "distinct (map idx raw)"
    and "r \<in> set raw"
    and "9 - 2 \<le> count_notna r"
  shows "\<exists>f. fill_col raw (dropna_thresh raw) TransactionDate = Inr f
           \<and> (idx r \<in> idx ` set df)
               = (\<exists>s t. f (TransactionDate r) = Some s
                    \<and> parse (notna (map (\<lambda>r. f (TransactionDate r)) (dropna_thresh raw))) s
                        = Some t)"
proof -
  let ?base = "dropna_thresh raw"
  from load_clean_filled[OF assms(1)] obtain filled where
    filled: "fillna_mode raw (fillna_mean ar ?base) = Inr filled"
    and df: "df = dropna_date (to_datetime parse filled)" by blast
  from fillna_mode_Inr[OF filled] obtain f where
    f': "fill_col raw (fillna_mean ar ?base) TransactionDate = Inr f"
    and ids: "map idx filled = map idx (fillna_mean ar ?base)"
    and dates: "map TransactionDate filled
                  = map (\<lambda>r. f (TransactionDate r)) (fillna_mean ar ?base)"
    by blast
  have f: "fill_col raw ?base TransactionDate = Inr f"
    using f' by (simp only: fill_col_fillna_mean)
  have ids': "map idx filled = map idx ?base" using ids by (simp only: fillna_mean_cols)
  have "map (\<lambda>r. f (TransactionDate r)) (fillna_mean ar ?base)
          = map f (map TransactionDate (fillna_mean ar ?base))" by (simp add: o_def)
  also have "\<dots> = map (\<lambda>r. f (TransactionDate r)) ?base"
    by (simp only: fillna_mean_cols) (simp add: o_def)
  finally have dates': "map TransactionDate filled = map (\<lambda>r. f (TransactionDate r)) ?base"
    using dates by simp
  let ?col = "notna (map (\<lambda>r. f (TransactionDate r)) ?base)"
  let ?P = "\<lambda>d. \<exists>s t. d = Some s \<and> parse ?col s = Some t"
  have pairs: "map (\<lambda>r. (idx r, TransactionDate r)) filled
                 = map (\<lambda>r. (idx r, f (TransactionDate r))) ?base"
    by (rule pairs_of_columns[OF ids' dates'])
  have "map idx df
          = map fst (filter (\<lambda>p. \<exists>s t. snd p = Some s
                                   \<and> parse (notna (map TransactionDate filled)) s = Some t)
              (map (\<lambda>r. (idx r, TransactionDate r)) filled))"
    unfolding df by (rule dropna_date_to_datetime)
  then have "map idx df
          = map fst (filter (\<lambda>p. ?P (snd p)) (map (\<lambda>r. (idx r, f (TransactionDate r))) ?base))"
    by (simp only: dates' pairs)
  then have "set (map idx df)
          = set (map fst (filter (\<lambda>p. ?P (snd p))
                   (map (\<lambda>r. (idx r, f (TransactionDate r))) ?base)))"
    by (rule arg_cong)
  also have "\<dots> = {idx b | b. b \<in> set ?base \<and> ?P (f (TransactionDate b))}"
    by (rule set_fst_filter_pairs)
  finally have S: "idx ` set df = {idx b | b. b \<in> set ?base \<and> ?P (f (TransactionDate b))}"
    by simp
  have rb: "r \<in> set ?base" using assms(3,4) by (simp add: dropna_thresh_def)
  have inj: "inj_on idx (set raw)" using assms(2) by (simp add: distinct_map)
  have sub: "set ?base \<subseteq> set raw" by (auto simp: dropna_thresh_def)
  have "(idx r \<in> idx ` set df) = (\<exists>b \<in> set ?base. idx b = idx r \<and> ?P (f (TransactionDate b)))"
    unfolding S by (rule mem_image_Collect)
  also have "\<dots> = ?P (f (TransactionDate r))"
  proof
    assume "\<exists>b \<in> set ?base. idx b = idx r \<and> ?P (f (TransactionDate b))"
    then obtain b where b: "b \<in> set ?base" "idx b = idx r" "?P (f (TransactionDate b))"
      by blast
    have "b = r" using inj b(1,2) sub assms(3) by (meson inj_onD subsetD)
    with b(3) show "?P (f (TransactionDate r))" by simp
  next
    assume "?P (f (TransactionDate r))"
    with rb show "\<exists>b \<in> set ?base. idx b = idx r \<and> ?P (f (TransactionDate b))" by blast
  qed
  finally show ?thesis using f by blast
qed

text \<open>A row whose date string does not parse is dropped.\<close>

lemma unparseable_date_dropped:
  assumes "load_clean ar parse raw = Inr (df, snap)"
    and "distinct (map idx raw)"
    and "r \<in> set raw"
    and "9 - 2 \<le> count_notna r"
    and "TransactionDate r = Some s"
    and "\<forall>col. parse col s = None"
  shows "idx r \<notin> idx ` set df"
proof -
  from row_kept_iff_date_parses[OF assms(1-4)] obtain f where
    f: "fill_col raw (dropna_thresh raw) TransactionDate = Inr f"
    and iff: "(idx r \<in> idx ` set df)
               = (\<exists>s t. f (TransactionDate r) = Some s
                    \<and> parse (notna (map (\<lambda>r. f (TransactionDate r)) (dropna_thresh raw))) s
                        = Some t)"
    by blast
  have "f (TransactionDate r) = Some s" using fill_col_Some[OF f] assms(5) by simp
  then show ?thesis using iff assms(6) by simp
qed

text \<open>
  C3. A row that survives the missing-fields threshold and has no TransactionDate is to
  be dropped, as the Cleaner's \<^verbatim>\<open>to_datetime(errors='coerce')\<close> and
  \<^verbatim>\<open>dropna(subset=['TransactionDate'])\<close> do with a date that is NaT. It is not: row 1
  of the example, with no date, is in the cleaned table with the date 2024-01-05, the
  most frequent of the column, which the loop over the object columns gave it before the
  dates were parsed.
\<close>

theorem missing_date_row_kept:
  "idx (raw_ex ! 1) = 1
   \<and> TransactionDate (raw_ex ! 1) = None
   \<and> 9 - 2 \<le> count_notna (raw_ex ! 1)
   \<and> map_sum id (map idx \<circ> fst) (load_clean exact to_datetime_ex raw_ex) = Inr [0, 1, 3, 5]
   \<and> map_sum id (map TransactionDate \<circ> fst) (load_clean exact to_datetime_ex raw_ex)
        = Inr [1704412800000000000, 1704412800000000000, 1704672000000000000,
               1704412800000000000]"
proof -
  have "load_clean exact to_datetime_ex raw_ex = Inr (df_ex, Some 1704758400000000000)"
    by code_simp
  then show ?thesis by (simp add: raw_ex_def df_ex_def count_notna_def)
qed

subsection \<open>Percentiles\<close>

lemma lerp_same: "lerp ar v v t = v"
  by (simp add: lerp_def)



lemma quantile_index_bounds:
  assumes "0 \<le> (q::rat)" "q \<le> 1" "0 < n"
  shows "nat \<lfloor>q * of_nat (n - 1)\<rfloor> < n"
proof -
  have "q * of_nat (n - 1) \<le> 1 * (of_nat (n - 1) :: rat)"
    using assms by (intro mult_right_mono) auto
  then have "\<lfloor>q * of_nat (n - 1)\<rfloor> \<le> int (n - 1)"
    by (simp add: floor_le_iff)
  then show ?thesis using assms by linarith
qed

text \<open>The percentiles of a column whose values are all the same are that value.\<close>

lemma quantile_const:
  assumes "col \<noteq> []" "\<forall>x \<in> set col. x = v" "0 \<le> q" "q \<le> 1"
  shows "quantile ar col q = Some v"
proof -
  let ?s = "sort col"
  let ?n = "length ?s"
  let ?lo = "nat \<lfloor>q * of_nat (?n - 1)\<rfloor>"
  have n: "0 < ?n" using assms(1) by simp
  have lo: "?lo < ?n" using quantile_index_bounds[OF assms(3,4) n] .
  have hi: "min (?lo + 1) (?n - 1) < ?n" using n by linarith
  have all: "\<And>i. i < ?n \<Longrightarrow> ?s ! i = v"
    using assms(2) by (metis nth_mem set_sort)
  show ?thesis
    using assms(1) all[OF lo] all[OF hi] by (simp add: quantile_def Let_def lerp_same)
qed






subsection \<open>The columns added to the customer table\<close>

lemma score_and_flag_fields:
  assumes "c \<in> set (score_and_flag ar rfm)"
  shows "rfm \<noteq> []"
    and "R_Score c = score_rfm (of_int (Recency c))
           (quantile3 ar (map (\<lambda>c. of_int (Recency c)) rfm)) True"
    and "F_Score c = score_rfm (of_int (TransactionCount c))
           (quantile3 ar (map (\<lambda>c. of_int (TransactionCount c)) rfm)) False"
    and "M_Score c = score_rfm (Monetary c) (quantile3 ar (map Monetary rfm)) False"
    and "CORE_Segment c = classify_core (R_Score c) (F_Score c) (M_Score c)"
    and "Churn_Risk c = (if Recency c > 90 then ''Yes'' else ''No'')"
    and "Top_Spender c =
           (if ge_float (Monetary c) (quantile ar (map Monetary rfm) (9 / 10))
            then ''Yes'' else ''No'')"
    and "IsLoyalCustomer c = (if TransactionCount c \<ge> 5 then ''Yes'' else ''No'')"
  using assms by (auto simp: score_and_flag_def Let_def)

lemma score_and_flag_columns:
  "map rfm_CustomerID (score_and_flag ar rfm) = map rfm_CustomerID rfm"
  "map Recency (score_and_flag ar rfm) = map Recency rfm"
  "map TransactionCount (score_and_flag ar rfm) = map TransactionCount rfm"
  "map Monetary (score_and_flag ar rfm) = map Monetary rfm"
  by (simp_all add: score_and_flag_def Let_def o_def)

lemma length_score_and_flag: "length (score_and_flag ar rfm) = length rfm"
  by (simp add: score_and_flag_def Let_def)

lemma score_rfm_range: "score_rfm v qs reverse \<in> {1, 2, 3, 4}"
  by (simp add: score_rfm_def)

subsection \<open>Scorer\<close>



text \<open>
  C9. \<^verbatim>\<open>score_rfm\<close> returns 1, 2, 3 or 4 on every input, and so each of R_Score,
  F_Score and M_Score of every customer of the scored table is one of 1, 2, 3, 4.
\<close>

theorem scores_in_range:
  "score_rfm v qs reverse \<in> {1, 2, 3, 4}
   \<and> (\<forall>c \<in> set (score_and_flag ar rfm).
        R_Score c \<in> {1, 2, 3, 4} \<and> F_Score c \<in> {1, 2, 3, 4} \<and> M_Score c \<in> {1, 2, 3, 4})"
proof (intro conjI ballI)
  show "score_rfm v qs reverse \<in> {1, 2, 3, 4}" by (rule score_rfm_range)
next
  fix c assume c: "c \<in> set (score_and_flag ar rfm)"
  show "R_Score c \<in> {1, 2, 3, 4}"
    unfolding score_and_flag_fields(2)[OF c] by (rule score_rfm_range)
  show "F_Score c \<in> {1, 2, 3, 4}"
    unfolding score_and_flag_fields(3)[OF c] by (rule score_rfm_range)
  show "M_Score c \<in> {1, 2, 3, 4}"
    unfolding score_and_flag_fields(4)[OF c] by (rule score_rfm_range)
qed

theorem scores_in_range_witness:
  "score_and_flag exact rfm_ex ! 2 \<in> set (score_and_flag exact rfm_ex)
   \<and> R_Score (score_and_flag exact rfm_ex ! 2) \<in> {1, 2, 3, 4}
   \<and> F_Score (score_and_flag exact rfm_ex ! 2) \<in> {1, 2, 3, 4}
   \<and> M_Score (score_and_flag exact rfm_ex ! 2) \<in> {1, 2, 3, 4}"
proof -
  have h: "score_and_flag exact rfm_ex ! 2 \<in> set (score_and_flag exact rfm_ex)"
    by (rule nth_mem) (simp add: length_score_and_flag rfm_ex_def)
  from scores_in_range[of 0 "quantile3 exact []" True exact rfm_ex] h show ?thesis by blast
qed

text \<open>
  C5. In a non-empty customer table whose Monetary values are all the same, every
  customer gets M_Score 1.
\<close>

theorem identical_monetary_score_1:
  assumes "rfm \<noteq> []" and "\<forall>c \<in> set rfm. Monetary c = v"
  shows "\<forall>c \<in> set (score_and_flag ar rfm). M_Score c = 1"
proof
  fix c assume c: "c \<in> set (score_and_flag ar rfm)"
  have "Monetary c \<in> set (map Monetary (score_and_flag ar rfm))" using c by simp
  then have mc: "Monetary c = v" using assms(2) by (auto simp: score_and_flag_columns)
  have "quantile ar (map Monetary rfm) (1 / 4) = Some v"
    using assms by (intro quantile_const) auto
  then show "M_Score c = 1"
    by (simp add: score_and_flag_fields(4)[OF c] score_rfm_def quantile3_def le_float_def mc)
qed

theorem identical_monetary_score_1_witness:
  "rfm_same \<noteq> [] \<and> map Monetary rfm_same = [300, 300, 300]
   \<and> score_and_flag exact rfm_same ! 0 \<in> set (score_and_flag exact rfm_same)
   \<and> M_Score (score_and_flag exact rfm_same ! 0) = 1"
proof -
  have ne: "rfm_same \<noteq> []" by (simp add: rfm_same_def)
  have same: "\<forall>c \<in> set rfm_same. Monetary c = 300" by (simp add: rfm_same_def)
  have h: "score_and_flag exact rfm_same ! 0 \<in> set (score_and_flag exact rfm_same)"
    by (rule nth_mem) (simp add: length_score_and_flag rfm_same_def)
  have col: "map Monetary rfm_same = [300, 300, 300]" by (simp add: rfm_same_def)
  from identical_monetary_score_1[OF ne same] ne col h show ?thesis by blast
qed

subsection \<open>Classifier\<close>

text \<open>
  C2. The Classifier returns the first matching rule in the order Retain, Optimize,
  Convert, Exit: Retain when all three scores are at least 3; otherwise Optimize when
  R is at least 3 and F or M equals 2; otherwise Convert when R equals 2 and F and M are
  at most 2; otherwise Exit. A triple no rule matches, such as (1,4,4), gives Exit. This
  holds for every integer triple, so for every triple of scores in {1,2,3,4}.
\<close>

theorem classify_core_first_match:
  "classify_core r f m =
     (if r \<ge> 3 \<and> f \<ge> 3 \<and> m \<ge> 3 then ''Retain''
      else if r \<ge> 3 \<and> (f = 2 \<or> m = 2) then ''Optimize''
      else if r = 2 \<and> f \<le> 2 \<and> m \<le> 2 then ''Convert''
      else ''Exit'')
   \<and> classify_core 1 4 4 = ''Exit''"
  by (simp add: classify_core_def)

subsection \<open>Flagger\<close>







text \<open>
  More are flagged not only on ties: of seven customers with distinct Monetary, the two
  largest \<open>10 ^ 16\<close> and \<open>10 ^ 16 + 2\<close>, the 90th percentile \<open>10 ^ 16 + 0.8\<close> rounds
  to \<open>10 ^ 16\<close>, and two are flagged where one is without rounding.
\<close>

lemma top_spender_rounded_example:
  "distinct (map Monetary rfm_seven)
   \<and> count_list (map Top_Spender (score_and_flag rounding rfm_seven)) ''Yes'' = 2
   \<and> count_list (map Top_Spender (score_and_flag exact rfm_seven)) ''Yes'' = 1"
  by code_simp

subsection \<open>Aggregator\<close>

lemma sum_length_filter_keys:
  assumes "finite K"
  shows "(\<Sum>k\<in>K. length (filter (\<lambda>r. f r = Some k) xs))
           = length (filter (\<lambda>r. \<exists>k \<in> K. f r = Some k) xs)"
proof (induction xs)
  case Nil
  then show ?case by simp
next
  case (Cons x xs)
  have "(\<Sum>k\<in>K. length (filter (\<lambda>r. f r = Some k) (x # xs)))
      = (\<Sum>k\<in>K. (if f x = Some k then 1 else 0) + length (filter (\<lambda>r. f r = Some k) xs))"
    by (intro sum.cong) auto
  also have "\<dots> = (\<Sum>k\<in>K. (if f x = Some k then 1 else 0))
                   + (\<Sum>k\<in>K. length (filter (\<lambda>r. f r = Some k) xs))"
    by (simp add: sum.distrib)
  also have "(\<Sum>k\<in>K. (if f x = Some k then 1 else 0))
               = (if \<exists>k \<in> K. f x = Some k then 1 else (0::nat))"
  proof (cases "f x")
    case None
    then show ?thesis by simp
  next
    case (Some k)
    have "(\<Sum>j\<in>K. (if f x = Some j then 1 else 0)) = (\<Sum>j\<in>K. (if k = j then 1 else (0::nat)))"
      by (simp add: Some)
    also have "\<dots> = (if k \<in> K then 1 else 0)" using assms by simp
    finally show ?thesis by (simp add: Some)
  qed
  finally show ?case using Cons by simp
qed

lemma set_notna: "set (notna col) = {v. Some v \<in> set col}"
  by (induction col) (auto simp: notna_def split: option.splits)

lemma length_notna: "length (notna col) = length (filter (\<lambda>c. c \<noteq> None) col)"
  by (induction col) (auto simp: notna_def split: option.splits)

lemma rfm_agg_ids:
  "map rfm_CustomerID (rfm_agg ar s df) = sort (remdups (notna (map CustomerID df)))"
  by (simp add: rfm_agg_def Let_def o_def)

lemma rfm_agg_counts:
  "map TransactionCount (rfm_agg ar s df) =
     map (\<lambda>k. int (length (filter (\<lambda>r. CustomerID r = Some k)
                              (filter (\<lambda>r. TransactionID r \<noteq> None) df))))
       (sort (remdups (notna (map CustomerID df))))"
proof -
  have "length (notna (map TransactionID (filter (\<lambda>r. CustomerID r = Some k) df)))
          = length (filter (\<lambda>r. CustomerID r = Some k)
                      (filter (\<lambda>r. TransactionID r \<noteq> None) df))" for k
    by (simp add: length_notna filter_map o_def conj_commute)
  then show ?thesis by (simp add: rfm_agg_def Let_def o_def)
qed

lemma sum_counts:
  "sum_list (map TransactionCount (rfm_agg ar s df))
     = int (length (filter (\<lambda>r. CustomerID r \<noteq> None \<and> TransactionID r \<noteq> None) df))"
proof -
  let ?ks = "sort (remdups (notna (map CustomerID df)))"
  let ?xs = "filter (\<lambda>r. TransactionID r \<noteq> None) df"
  have d: "distinct ?ks" by simp
  have ks: "set ?ks = {k. Some k \<in> CustomerID ` set df}" by (simp add: set_notna)
  have "sum_list (map TransactionCount (rfm_agg ar s df))
      = (\<Sum>k\<in>set ?ks. int (length (filter (\<lambda>r. CustomerID r = Some k) ?xs)))"
    unfolding rfm_agg_counts by (rule sum_list_distinct_conv_sum_set[OF d])
  also have "\<dots> = int (\<Sum>k\<in>set ?ks. length (filter (\<lambda>r. CustomerID r = Some k) ?xs))"
    by simp
  also have "(\<Sum>k\<in>set ?ks. length (filter (\<lambda>r. CustomerID r = Some k) ?xs))
               = length (filter (\<lambda>r. \<exists>k \<in> set ?ks. CustomerID r = Some k) ?xs)"
    by (rule sum_length_filter_keys) simp
  also have "filter (\<lambda>r. \<exists>k \<in> set ?ks. CustomerID r = Some k) ?xs
               = filter (\<lambda>r. CustomerID r \<noteq> None \<and> TransactionID r \<noteq> None) df"
    unfolding ks filter_filter
  proof (rule filter_cong[OF refl])
    fix x assume "x \<in> set df"
    then have "(\<exists>k\<in>{k. Some k \<in> CustomerID ` set df}. CustomerID x = Some k)
                 = (CustomerID x \<noteq> None)"
      by (cases "CustomerID x") force+
    then show "(TransactionID x \<noteq> None
                  \<and> (\<exists>k\<in>{k. Some k \<in> CustomerID ` set df}. CustomerID x = Some k))
               = (CustomerID x \<noteq> None \<and> TransactionID x \<noteq> None)"
      by blast
  qed
  finally show ?thesis .
qed

text \<open>
  When some row of the file has a TransactionID and some row has a CustomerID, the
  Cleaner fills both columns, and the TransactionCount column sums to the number of rows
  of the cleaned table. In general it sums to the number of cleaned rows that have both.
\<close>

lemma transaction_count_sum_filled:
  assumes "load_clean ar parse raw = Inr (df, snap)"
    and "\<exists>r \<in> set raw. TransactionID r \<noteq> None" and "\<exists>r \<in> set raw. CustomerID r \<noteq> None"
  shows "sum_list (map TransactionCount (rfm_agg ar snapshot_date df)) = int (length df)"
    and "sum_list (map TransactionCount (score_and_flag ar (rfm_agg ar snapshot_date df)))
           = int (length df)"
proof -
  have "\<forall>r \<in> set df. CustomerID r \<noteq> None \<and> TransactionID r \<noteq> None"
    using load_clean_ids[OF assms(1)] assms(2,3) by blast
  then have "filter (\<lambda>r. CustomerID r \<noteq> None \<and> TransactionID r \<noteq> None) df = df"
    by (simp add: filter_id_conv)
  then show "sum_list (map TransactionCount (rfm_agg ar snapshot_date df)) = int (length df)"
    by (simp add: sum_counts)
  then show "sum_list (map TransactionCount (score_and_flag ar (rfm_agg ar snapshot_date df)))
           = int (length df)"
    by (simp add: score_and_flag_columns)
qed

text \<open>
  C6. The TransactionCount column of the customer table is to sum to the number of rows
  of the cleaned transaction table. It does not on a file with no TransactionID in any
  row: the column is read as float64, the loop over the object columns leaves it
  unfilled, and \<^verbatim>\<open>'count'\<close> counts the cells of the column that are not missing.
  The file of the example without its TransactionID column is cleaned to four rows, and
  the TransactionCount of both customers is 0.
\<close>

theorem transaction_count_zero_without_ids:
  "load_clean exact to_datetime_ex raw_noid = Inr (df_noid, Some 1704758400000000000)
   \<and> length df_noid = 4
   \<and> map TransactionCount (rfm_agg exact 1704758400000000000 df_noid) = [0, 0]
   \<and> sum_list (map TransactionCount (rfm_agg exact 1704758400000000000 df_noid)) \<noteq> 4"
proof -
  have "load_clean exact to_datetime_ex raw_noid = Inr (df_noid, Some 1704758400000000000)"
    by code_simp
  moreover have "length df_noid = 4" by (simp add: df_noid_def df_ex_def)
  moreover have "map TransactionCount (rfm_agg exact 1704758400000000000 df_noid) = [0, 0]"
    by code_simp
  ultimately show ?thesis by simp
qed

lemma rfm_agg_mem:
  assumes "c \<in> set (rfm_agg ar s df)"
  shows "Some (rfm_CustomerID c) \<in> CustomerID ` set df"
    and "Recency c = (s - Max (set (map TransactionDate
            (filter (\<lambda>r. CustomerID r = Some (rfm_CustomerID c)) df)))) div day"
  using assms by (auto simp: rfm_agg_def Let_def set_notna)

lemma group_max_le:
  assumes "Some k \<in> CustomerID ` set (df :: clean_row list)"
  shows "Max (set (map TransactionDate (filter (\<lambda>r. CustomerID r = Some k) df)))
           \<le> Max (set (map TransactionDate df))"
proof (rule Max_mono)
  show "set (map TransactionDate (filter (\<lambda>r. CustomerID r = Some k) df))
          \<subseteq> set (map TransactionDate df)"
    by auto
  show "set (map TransactionDate (filter (\<lambda>r. CustomerID r = Some k) df)) \<noteq> {}"
    using assms by (auto simp: image_iff eq_commute)
  show "finite (set (map TransactionDate df))" by simp
qed

text \<open>
  C10. For a non-empty cleaned table, the snapshot date is the latest transaction date
  plus one day whenever that is a Timestamp, and then every customer's Recency is at
  least 1.
\<close>

theorem recency_at_least_1:
  assumes "df \<noteq> []"
  shows "(Max (set (map TransactionDate df)) + day \<le> 2 ^ 63 - 1 \<longrightarrow>
            snapshot_date_of df = Inr (Some (Max (set (map TransactionDate df)) + day)))
       \<and> (\<forall>s. snapshot_date_of df = Inr (Some s) \<longrightarrow>
            (\<forall>c \<in> set (rfm_agg ar s df). 1 \<le> Recency c))"
proof (intro conjI allI impI ballI)
  assume "Max (set (map TransactionDate df)) + day \<le> 2 ^ 63 - 1"
  then show "snapshot_date_of df = Inr (Some (Max (set (map TransactionDate df)) + day))"
    using assms by (simp add: snapshot_date_of_def Let_def)
next
  fix s c
  assume s: "snapshot_date_of df = Inr (Some s)" and c: "c \<in> set (rfm_agg ar s df)"
  from s assms have s_eq: "s = Max (set (map TransactionDate df)) + day"
    by (simp add: snapshot_date_of_def Let_def split: if_splits)
  let ?m = "Max (set (map TransactionDate
              (filter (\<lambda>r. CustomerID r = Some (rfm_CustomerID c)) df)))"
  have "?m \<le> Max (set (map TransactionDate df))"
    using rfm_agg_mem(1)[OF c] by (rule group_max_le)
  then have "day \<le> s - ?m" using s_eq by simp
  moreover have "0 < day" by (simp add: day_def)
  ultimately have "1 \<le> (s - ?m) div day"
    using pos_imp_zdiv_pos_iff[of day "s - ?m"] by linarith
  then show "1 \<le> Recency c" by (simp add: rfm_agg_mem(2)[OF c])
qed

theorem recency_at_least_1_witness:
  "df_ex \<noteq> []
   \<and> snapshot_date_of df_ex = Inr (Some 1704758400000000000)
   \<and> rfm_agg exact 1704758400000000000 df_ex ! 1 \<in> set (rfm_agg exact 1704758400000000000 df_ex)
   \<and> 1 \<le> Recency (rfm_agg exact 1704758400000000000 df_ex ! 1)"
proof -
  have ne: "df_ex \<noteq> []" by (simp add: df_ex_def)
  have s: "snapshot_date_of df_ex = Inr (Some 1704758400000000000)" by code_simp
  have l: "length (rfm_agg exact 1704758400000000000 df_ex) = 2" by code_simp
  have h: "rfm_agg exact 1704758400000000000 df_ex ! 1
             \<in> set (rfm_agg exact 1704758400000000000 df_ex)"
    by (rule nth_mem) (simp add: l)
  from recency_at_least_1[OF ne, of exact] s
  have "\<forall>c \<in> set (rfm_agg exact 1704758400000000000 df_ex). 1 \<le> Recency c" by simp
  with ne s h show ?thesis by simp
qed

subsection \<open>Merger\<close>

lemma filter_key_singleton:
  assumes "distinct (map f xs)" and "k \<in> f ` set xs"
  shows "\<exists>x. filter (\<lambda>c. f c = k) xs = [x] \<and> x \<in> set xs \<and> f x = k"
  using assms
proof (induction xs)
  case Nil
  then show ?case by simp
next
  case (Cons a xs)
  show ?case
  proof (cases "f a = k")
    case True
    have "f a \<notin> f ` set xs" using Cons.prems(1) by simp
    then have "\<forall>x \<in> set xs. f x \<noteq> k" using True by (metis image_eqI)
    then have "filter (\<lambda>c. f c = k) xs = []"
      by (simp add: filter_empty_conv)
    with True show ?thesis by simp
  next
    case False
    then have "k \<in> f ` set xs" using Cons.prems(2) by auto
    with Cons.IH Cons.prems(1) obtain x where
      "filter (\<lambda>c. f c = k) xs = [x]" "x \<in> set xs" "f x = k" by auto
    with False show ?thesis by simp
  qed
qed

text \<open>
  The left join against a customer table with distinct ids that has a row for every id of
  the transaction table.
\<close>

lemma merge_left_rows:
  assumes "distinct (map rfm_CustomerID rfm)"
    and "\<forall>t \<in> set df. \<forall>k. CustomerID t = Some k \<longrightarrow> k \<in> rfm_CustomerID ` set rfm"
  shows "map fst (merge_left df rfm) = df
       \<and> (\<forall>p \<in> set (merge_left df rfm).
            case CustomerID (fst p) of
              None \<Rightarrow> snd p = None
            | Some k \<Rightarrow> (\<exists>c. snd p = Some c \<and> c \<in> set rfm \<and> rfm_CustomerID c = k))"
  using assms(2)
proof (induction df)
  case Nil
  then show ?case by (simp add: merge_left_def)
next
  case (Cons t df)
  from Cons have IH: "map fst (merge_left df rfm) = df"
    "\<forall>p \<in> set (merge_left df rfm).
            case CustomerID (fst p) of
              None \<Rightarrow> snd p = None
            | Some k \<Rightarrow> (\<exists>c. snd p = Some c \<and> c \<in> set rfm \<and> rfm_CustomerID c = k)"
    by auto
  show ?case
  proof (cases "CustomerID t")
    case None
    then have step: "merge_left (t # df) rfm = (t, None) # merge_left df rfm"
      by (simp add: merge_left_def)
    show ?thesis using IH None by (simp add: step)
  next
    case (Some k)
    then have "k \<in> rfm_CustomerID ` set rfm" using Cons.prems by auto
    from filter_key_singleton[OF assms(1) this] obtain c where
      c: "filter (\<lambda>c. rfm_CustomerID c = k) rfm = [c]" "c \<in> set rfm"
         "rfm_CustomerID c = k" by blast
    have step: "merge_left (t # df) rfm = (t, Some c) # merge_left df rfm"
      by (simp add: merge_left_def Some c(1))
    show ?thesis using IH c(2,3) Some by (simp add: step)
  qed
qed

lemma scored_ids:
  "map rfm_CustomerID (score_and_flag ar (rfm_agg ar s df))
     = sort (remdups (notna (map CustomerID df)))"
  by (simp add: score_and_flag_columns rfm_agg_ids)

text \<open>
  The merged table has one row per row of the cleaned table, in the same order. A row
  with a CustomerID is joined to the one row of the customer table with that id; a row
  with no CustomerID has no customer row joined. A customer id with no row in the cleaned
  table is in no row of the customer table and of the merged table. When some row of the
  file has a CustomerID, the Cleaner fills the column, and every merged row is joined.
\<close>

lemma merge_one_row_per_transaction:
  "map fst (df_final ar snapshot_date df) = df
   \<and> length (df_final ar snapshot_date df) = length df
   \<and> (\<forall>p \<in> set (df_final ar snapshot_date df).
        case CustomerID (fst p) of
          None \<Rightarrow> snd p = None
        | Some k \<Rightarrow>
            (\<exists>c. snd p = Some c
               \<and> c \<in> set (score_and_flag ar (rfm_agg ar snapshot_date df))
               \<and> rfm_CustomerID c = k
               \<and> (\<forall>c' \<in> set (score_and_flag ar (rfm_agg ar snapshot_date df)).
                     rfm_CustomerID c' = k \<longrightarrow> c' = c)))
   \<and> (\<forall>k. Some k \<notin> CustomerID ` set df \<longrightarrow>
        k \<notin> rfm_CustomerID ` set (score_and_flag ar (rfm_agg ar snapshot_date df))
        \<and> (\<forall>p \<in> set (df_final ar snapshot_date df). CustomerID (fst p) \<noteq> Some k))
   \<and> (load_clean ar parse raw = Inr (df, snap) \<and> (\<exists>r \<in> set raw. CustomerID r \<noteq> None)
        \<longrightarrow> (\<forall>p \<in> set (df_final ar snapshot_date df).
               CustomerID (fst p) \<noteq> None \<and> snd p \<noteq> None))"
proof -
  let ?rfm = "score_and_flag ar (rfm_agg ar snapshot_date df)"
  have ids: "map rfm_CustomerID ?rfm = sort (remdups (notna (map CustomerID df)))"
    by (rule scored_ids)
  have d: "distinct (map rfm_CustomerID ?rfm)" unfolding ids by simp
  have s: "rfm_CustomerID ` set ?rfm = {k. Some k \<in> CustomerID ` set df}"
    using arg_cong[OF ids, of set] by (simp add: set_notna)
  have cover: "\<forall>t \<in> set df. \<forall>k. CustomerID t = Some k \<longrightarrow> k \<in> rfm_CustomerID ` set ?rfm"
  proof (intro ballI allI impI)
    fix t k assume t: "t \<in> set df" "CustomerID t = Some k"
    have "CustomerID t \<in> CustomerID ` set df" using t(1) by (rule imageI)
    then have "Some k \<in> CustomerID ` set df" by (simp only: t(2))
    then show "k \<in> rfm_CustomerID ` set ?rfm" by (simp add: s)
  qed
  note m = conjunct1[OF merge_left_rows[OF d cover]] conjunct2[OF merge_left_rows[OF d cover]]
  have mp: "\<forall>p \<in> set (df_final ar snapshot_date df).
            case CustomerID (fst p) of
              None \<Rightarrow> snd p = None
            | Some k \<Rightarrow> (\<exists>c. snd p = Some c \<and> c \<in> set ?rfm \<and> rfm_CustomerID c = k)"
    using m(2) by (simp only: df_final_def)
  have inj: "inj_on rfm_CustomerID (set ?rfm)" using d by (simp add: distinct_map)
  have 1: "map fst (df_final ar snapshot_date df) = df" using m(1) by (simp add: df_final_def)
  have 2: "length (df_final ar snapshot_date df) = length df"
    using arg_cong[OF 1, of length] by simp
  have 3: "\<forall>p \<in> set (df_final ar snapshot_date df).
        case CustomerID (fst p) of
          None \<Rightarrow> snd p = None
        | Some k \<Rightarrow>
            (\<exists>c. snd p = Some c \<and> c \<in> set ?rfm \<and> rfm_CustomerID c = k
               \<and> (\<forall>c' \<in> set ?rfm. rfm_CustomerID c' = k \<longrightarrow> c' = c))"
  proof
    fix p assume p: "p \<in> set (df_final ar snapshot_date df)"
    show "case CustomerID (fst p) of
          None \<Rightarrow> snd p = None
        | Some k \<Rightarrow>
            (\<exists>c. snd p = Some c \<and> c \<in> set ?rfm \<and> rfm_CustomerID c = k
               \<and> (\<forall>c' \<in> set ?rfm. rfm_CustomerID c' = k \<longrightarrow> c' = c))"
    proof (cases "CustomerID (fst p)")
      case None
      then show ?thesis using bspec[OF mp p] by simp
    next
      case (Some k)
      then obtain c where c: "snd p = Some c" "c \<in> set ?rfm" "rfm_CustomerID c = k"
        using bspec[OF mp p] by auto
      have "\<forall>c' \<in> set ?rfm. rfm_CustomerID c' = k \<longrightarrow> c' = c"
      proof (intro ballI impI)
        fix c' assume "c' \<in> set ?rfm" "rfm_CustomerID c' = k"
        then show "c' = c" using inj_onD[OF inj, of c' c] c(2,3) by simp
      qed
      with c have "\<exists>c. snd p = Some c \<and> c \<in> set ?rfm \<and> rfm_CustomerID c = k
               \<and> (\<forall>c' \<in> set ?rfm. rfm_CustomerID c' = k \<longrightarrow> c' = c)"
        by blast
      then show ?thesis by (simp only: Some option.case)
    qed
  qed
  have fst_in: "fst p \<in> set df" if "p \<in> set (df_final ar snapshot_date df)" for p
  proof -
    have "fst p \<in> set (map fst (df_final ar snapshot_date df))" using that by simp
    then show ?thesis by (simp only: 1)
  qed
  have 4: "\<forall>k. Some k \<notin> CustomerID ` set df \<longrightarrow>
        k \<notin> rfm_CustomerID ` set ?rfm
        \<and> (\<forall>p \<in> set (df_final ar snapshot_date df). CustomerID (fst p) \<noteq> Some k)"
  proof (intro allI impI conjI ballI)
    fix k assume k: "Some k \<notin> CustomerID ` set df"
    show "k \<notin> rfm_CustomerID ` set ?rfm" using k s by simp
    fix p assume "p \<in> set (df_final ar snapshot_date df)"
    then have "CustomerID (fst p) \<in> CustomerID ` set df" by (intro imageI fst_in)
    with k show "CustomerID (fst p) \<noteq> Some k" by auto
  qed
  have 5: "load_clean ar parse raw = Inr (df, snap) \<and> (\<exists>r \<in> set raw. CustomerID r \<noteq> None)
        \<longrightarrow> (\<forall>p \<in> set (df_final ar snapshot_date df).
               CustomerID (fst p) \<noteq> None \<and> snd p \<noteq> None)"
  proof (intro impI ballI)
    fix p
    assume a: "load_clean ar parse raw = Inr (df, snap) \<and> (\<exists>r \<in> set raw. CustomerID r \<noteq> None)"
      and p: "p \<in> set (df_final ar snapshot_date df)"
    have "\<forall>r \<in> set df. CustomerID r \<noteq> None"
      using load_clean_ids(2)[of ar parse raw df snap] a by blast
    then have "CustomerID (fst p) \<noteq> None" using fst_in[OF p] by blast
    then obtain k where k: "CustomerID (fst p) = Some k" by blast
    have "snd p \<noteq> None" using bspec[OF mp p] by (auto simp: k)
    then show "CustomerID (fst p) \<noteq> None \<and> snd p \<noteq> None" by (simp add: k)
  qed
  show ?thesis by (rule conjI[OF 1 conjI[OF 2 conjI[OF 3 conjI[OF 4 5]]]])
qed

text \<open>
  C8. Every merged row is to be joined to the customer row of its customer id. It is not
  on a file with no CustomerID in any row: the column is read as float64, the loop over
  the object columns leaves it unfilled, \<^verbatim>\<open>groupby\<close> leaves out every row, and the
  merged rows have no customer row joined. The file of the example without its
  CustomerID column is cleaned to four rows, and so are the four merged rows.
\<close>

theorem merged_rows_unjoined_without_customer_ids:
  "load_clean exact to_datetime_ex raw_nocust = Inr (df_nocust, Some 1704758400000000000)
   \<and> length df_nocust = 4
   \<and> length (df_final exact 1704758400000000000 df_nocust) = 4
   \<and> map snd (df_final exact 1704758400000000000 df_nocust) = [None, None, None, None]"
proof -
  have "load_clean exact to_datetime_ex raw_nocust
          = Inr (df_nocust, Some 1704758400000000000)"
    by code_simp
  moreover have "length df_nocust = 4" by (simp add: df_nocust_def df_ex_def)
  moreover have "map snd (df_final exact 1704758400000000000 df_nocust)
                   = [None, None, None, None]"
    by code_simp
  moreover from this have "length (df_final exact 1704758400000000000 df_nocust) = 4"
    using length_map[of snd "df_final exact 1704758400000000000 df_nocust"] by simp
  ultimately show ?thesis by simp
qed

end
